theory Spec2Isabelle
  imports Main
begin

section \<open>The realtime plugin of the viewer (src/plugins/realtime/realtime.js)\<close>

subsection \<open>Values, exceptions, host objects\<close>

text \<open>
  The plugin is modelled as a state machine over its closure variables. Every function of
  the source is a function from the state before to an outcome (returned, or the exception
  thrown) and the state after. Calls into the host (the EventSource constructor and its
  methods, \<open>scope.broadcast\<close>, \<open>viewerAPI.fire\<close>) return and are recorded in a log.

  The values that stream payloads carry: scalars and arrays of them (page numbers, error
  texts). Numbers are the integers. Objects occur one level up: as a decoded payload
  (\<open>decoded\<close>) and as the payload of an outbound notification (\<open>payload\<close>); a payload
  member that is itself an object is outside this type.
\<close>

datatype jsval = JUndefined | JNull | JBool bool | JNum int | JStr string | JArr "jsval list"

text \<open>The truth value JavaScript gives a value in \<open>if (v)\<close> and \<open>v || w\<close>.\<close>

fun truthy :: "jsval \<Rightarrow> bool" where
  "truthy JUndefined = False"
| "truthy JNull = False"
| "truthy (JBool b) = b"
| "truthy (JNum n) = (n \<noteq> 0)"
| "truthy (JStr s) = (s \<noteq> [])"
| "truthy (JArr xs) = True"

text \<open>An object literal such as \<open>{ page: page }\<close>: its members in the order written.\<close>

type_synonym payload = "(string \<times> jsval) list"

text \<open>
  What \<open>util.parseJSON\<close> returns: an object with its members, or any other value.
\<close>

datatype decoded = Value jsval | Object "string \<rightharpoonup> jsval"

datatype exn = Error string | TypeError | SyntaxError

datatype outcome = Returned | Threw exn

text \<open>
  Reading a member \<open>d.name\<close> for the two names the plugin reads, \<open>pages\<close> and \<open>error\<close>,
  which no number, string, boolean or array has: \<open>undefined\<close> where the member is
  missing, a TypeError (\<open>None\<close>) on \<open>null\<close> and \<open>undefined\<close>.
\<close>

fun member :: "decoded \<Rightarrow> string \<Rightarrow> jsval option" where
  "member (Value JUndefined) name = None"
| "member (Value JNull) name = None"
| "member (Value v) name = Some JUndefined"
| "member (Object ms) name = Some (case ms name of None \<Rightarrow> JUndefined | Some v \<Rightarrow> v)"

text \<open>
  What \<open>for (i = 0; i < pages.length; ++i) pages[i]\<close> reads: the elements of an array,
  the characters of a string, nothing of a number or a boolean (their \<open>length\<close> is
  \<open>undefined\<close> and \<open>0 < undefined\<close> is false); \<open>pages.length\<close> is a TypeError (\<open>None\<close>)
  on \<open>null\<close> and \<open>undefined\<close>.
\<close>

fun elements :: "jsval \<Rightarrow> jsval list option" where
  "elements JUndefined = None"
| "elements JNull = None"
| "elements (JBool b) = Some []"
| "elements (JNum n) = Some []"
| "elements (JStr s) = Some (map (\<lambda>c. JStr [c]) s)"
| "elements (JArr xs) = Some xs"

text \<open>The three event handlers the plugin registers on its EventSource.\<close>

datatype handler = HandlePageAvailableEvent | HandleFinishedEvent | HandleErrorEvent

text \<open>
  An EventSource object of the host platform: the URL it was opened with, whether
  \<open>close()\<close> was called on it, and its listener list.
\<close>

record event_source =
  es_url :: jsval
  closed :: bool
  listeners :: "(string \<times> handler) list"

text \<open>
  The calls the plugin makes on its host, in the order made: \<open>scope.broadcast\<close> (the
  viewer's message bus), \<open>viewerAPI.fire\<close> (the host API, with or without a payload) and
  \<open>eventSource.close()\<close> on the EventSource of the given index.
\<close>

datatype effect = Broadcast string payload | Fire string "payload option" | Close nat

text \<open>A \<open>Realtime\<close> object: its \<open>eventSource\<close> member, \<open>None\<close> once set to \<open>null\<close>.\<close>

record realtime_obj =
  eventSource :: "nat option"

datatype realtime_var = RUndefined | RNull | RObj realtime_obj

text \<open>The viewer's configuration object, as far as the plugin reads or writes it.\<close>

record viewer_config =
  numPages :: jsval
  conversionIsComplete :: jsval

text \<open>
  What the plugin finds in its environment: \<open>window.EventSource\<close>,
  \<open>scope.getUtility('support').svg\<close>, and \<open>util.parseJSON\<close> of the viewer's common
  utilities (\<open>None\<close>: it throws), which is not part of this source file.
\<close>

record env =
  hasEventSource :: bool
  svg :: bool
  parseJSON :: "jsval \<Rightarrow> decoded option"

type_synonym message = "string \<times> payload"

text \<open>
  The variables of the plugin's closure, the viewer's configuration object, the
  EventSource objects constructed so far (an \<open>eventSource\<close> member is an index into them)
  and the log of host calls. \<open>util\<close>, \<open>viewerConfig\<close> and \<open>viewerAPI\<close> are references that
  \<open>destroy\<close> sets to \<open>null\<close>: the flags say whether they still refer to their object.
\<close>

record plugin =
  util_set :: bool
  viewerConfig_set :: bool
  viewerAPI_set :: bool
  config :: viewer_config
  realtime :: realtime_var
  ready :: bool
  messageQueue :: "message list option"
  sources :: "event_source list"
  host_log :: "effect list"

text \<open>Statements in sequence: an exception skips what follows.\<close>

fun andThen :: "outcome \<times> plugin \<Rightarrow> (plugin \<Rightarrow> outcome \<times> plugin) \<Rightarrow> outcome \<times> plugin" where
  "andThen (Returned, s) f = f s"
| "andThen (Threw e, s) f = (Threw e, s)"

subsection \<open>The Realtime wrapper (lines 13 to 53)\<close>

text \<open>\<open>new window.EventSource(url)\<close>: a new open EventSource without listeners.\<close>

definition new_EventSource :: "jsval \<Rightarrow> event_source" where
  "new_EventSource url = \<lparr>es_url = url, closed = False, listeners = []\<rparr>"

definition Realtime :: "env \<Rightarrow> jsval \<Rightarrow> plugin \<Rightarrow> (exn + realtime_obj) \<times> plugin" where
  "Realtime e url s =
     (if \<not> hasEventSource e
      then (Inl (Error ''Realtime plugin requires EventSource support''), s)
      else (Inr \<lparr>eventSource = Some (length (sources s))\<rparr>,
            s\<lparr>sources := sources s @ [new_EventSource url]\<rparr>))"

text \<open>
  \<open>addEventListener(name, handler, false)\<close> of the platform: a listener already in the
  list is not added again. \<open>removeEventListener\<close> takes it out.
\<close>

definition addEventListener :: "nat \<Rightarrow> string \<Rightarrow> handler \<Rightarrow> plugin \<Rightarrow> plugin" where
  "addEventListener k name h s =
     (if k < length (sources s)
      then let src = sources s ! k; ls = listeners src
           in s\<lparr>sources := (sources s)[k := src\<lparr>listeners :=
                  (if (name, h) \<in> set ls then ls else ls @ [(name, h)])\<rparr>]\<rparr>
      else s)"

definition removeEventListener :: "nat \<Rightarrow> string \<Rightarrow> handler \<Rightarrow> plugin \<Rightarrow> plugin" where
  "removeEventListener k name h s =
     (if k < length (sources s)
      then let src = sources s ! k
           in s\<lparr>sources := (sources s)[k := src\<lparr>listeners :=
                  filter (\<lambda>l. l \<noteq> (name, h)) (listeners src)\<rparr>]\<rparr>
      else s)"

definition Realtime_on :: "realtime_obj \<Rightarrow> string \<Rightarrow> handler \<Rightarrow> plugin \<Rightarrow> outcome \<times> plugin" where
  "Realtime_on r name h s =
     (case eventSource r of
        None \<Rightarrow> (Threw TypeError, s)
      | Some k \<Rightarrow> (Returned, addEventListener k name h s))"

definition Realtime_off :: "realtime_obj \<Rightarrow> string \<Rightarrow> handler \<Rightarrow> plugin \<Rightarrow> outcome \<times> plugin" where
  "Realtime_off r name h s =
     (case eventSource r of
        None \<Rightarrow> (Threw TypeError, s)
      | Some k \<Rightarrow> (Returned, removeEventListener k name h s))"

text \<open>\<open>eventSource.close()\<close> of the platform, logged as a host call.\<close>

definition es_close :: "nat \<Rightarrow> plugin \<Rightarrow> plugin" where
  "es_close k s =
     (if k < length (sources s)
      then s\<lparr>sources := (sources s)[k := (sources s ! k)\<lparr>closed := True\<rparr>],
             host_log := host_log s @ [Close k]\<rparr>
      else s)"

definition Realtime_destroy :: "realtime_obj \<Rightarrow> plugin \<Rightarrow> realtime_obj \<times> plugin" where
  "Realtime_destroy r s =
     (case eventSource r of
        Some k \<Rightarrow> (r\<lparr>eventSource := None\<rparr>, es_close k s)
      | None \<Rightarrow> (r, s))"

subsection \<open>The plugin (lines 58 to 228)\<close>

text \<open>\<open>scope.broadcast(name, data)\<close> and \<open>viewerAPI.fire(name, data)\<close>.\<close>

definition scope_broadcast :: "string \<Rightarrow> payload \<Rightarrow> plugin \<Rightarrow> plugin" where
  "scope_broadcast name data s = s\<lparr>host_log := host_log s @ [Broadcast name data]\<rparr>"

definition viewerAPI_fire :: "string \<Rightarrow> payload option \<Rightarrow> plugin \<Rightarrow> outcome \<times> plugin" where
  "viewerAPI_fire name data s =
     (if viewerAPI_set s then (Returned, s\<lparr>host_log := host_log s @ [Fire name data]\<rparr>)
      else (Threw TypeError, s))"

text \<open>The calls \<open>realtime.on(name, handler)\<close> and \<open>realtime.destroy()\<close> on the variable.\<close>

definition realtime_on :: "string \<Rightarrow> handler \<Rightarrow> plugin \<Rightarrow> outcome \<times> plugin" where
  "realtime_on name h s =
     (case realtime s of RObj r \<Rightarrow> Realtime_on r name h s | _ \<Rightarrow> (Threw TypeError, s))"

definition realtime_destroy :: "plugin \<Rightarrow> outcome \<times> plugin" where
  "realtime_destroy s =
     (case realtime s of
        RObj r \<Rightarrow> (case Realtime_destroy r s of (r', s') \<Rightarrow> (Returned, s'\<lparr>realtime := RObj r'\<rparr>))
      | _ \<Rightarrow> (Threw TypeError, s))"

definition broadcastMessageWhenReady :: "string \<Rightarrow> payload \<Rightarrow> plugin \<Rightarrow> outcome \<times> plugin" where
  "broadcastMessageWhenReady name data s =
     (if ready s then (Returned, scope_broadcast name data s)
      else case messageQueue s of
             None \<Rightarrow> (Threw TypeError, s)
           | Some q \<Rightarrow> (Returned, s\<lparr>messageQueue := Some (q @ [(name, data)])\<rparr>))"

function broadcastQueuedMessages :: "plugin \<Rightarrow> outcome \<times> plugin" where
  "broadcastQueuedMessages s =
     (case messageQueue s of
        None \<Rightarrow> (Threw TypeError, s)
      | Some [] \<Rightarrow> (Returned, s)
      | Some (m # q) \<Rightarrow>
          broadcastQueuedMessages (scope_broadcast (fst m) (snd m) (s\<lparr>messageQueue := Some q\<rparr>)))"
  by pat_completeness auto
termination
  by (relation "measure (\<lambda>s. case messageQueue s of None \<Rightarrow> 0 | Some q \<Rightarrow> length q)")
     (auto simp: scope_broadcast_def)

definition handleReadyMessage :: "plugin \<Rightarrow> outcome \<times> plugin" where
  "handleReadyMessage s = broadcastQueuedMessages (s\<lparr>ready := True\<rparr>)"

text \<open>The loop of \<open>updateAvailablePages\<close> over the elements it reads.\<close>

fun updateAvailablePages_loop :: "jsval list \<Rightarrow> plugin \<Rightarrow> outcome \<times> plugin" where
  "updateAvailablePages_loop [] s = (Returned, s)"
| "updateAvailablePages_loop (page # rest) s =
     andThen (broadcastMessageWhenReady ''pageavailable'' [(''page'', page)] s)
             (updateAvailablePages_loop rest)"

definition updateAvailablePages :: "jsval \<Rightarrow> plugin \<Rightarrow> outcome \<times> plugin" where
  "updateAvailablePages pages s =
     (case elements pages of
        None \<Rightarrow> (Threw TypeError, s)
      | Some ps \<Rightarrow> updateAvailablePages_loop ps s)"

definition handlePageAvailableEvent :: "env \<Rightarrow> jsval \<Rightarrow> plugin \<Rightarrow> outcome \<times> plugin" where
  "handlePageAvailableEvent e data s =
     (if \<not> util_set s then (Threw TypeError, s)
      else case parseJSON e data of
             None \<Rightarrow> (Threw SyntaxError, s)
           | Some d \<Rightarrow> (case member d ''pages'' of
                          None \<Rightarrow> (Threw TypeError, s)
                        | Some pages \<Rightarrow> updateAvailablePages pages s))"

text \<open>
  The \<open>try\<close> of \<open>handleErrorEvent\<close>: whatever is thrown inside it, by \<open>util.parseJSON\<close> or by
  reading \<open>parseJSON\<close> of a \<open>util\<close> set to \<open>null\<close>, is caught.
\<close>

definition decodeErrorData :: "env \<Rightarrow> jsval \<Rightarrow> plugin \<Rightarrow> decoded" where
  "decodeErrorData e data s =
     (if util_set s
      then (case parseJSON e data of
              None \<Rightarrow> Object [''error'' \<mapsto> data]
            | Some d \<Rightarrow> d)
      else Object [''error'' \<mapsto> data])"

definition handleErrorEvent :: "env \<Rightarrow> jsval \<Rightarrow> plugin \<Rightarrow> outcome \<times> plugin" where
  "handleErrorEvent e data s =
     (if \<not> viewerAPI_set s then (Threw TypeError, s)
      else case member (decodeErrorData e data s) ''error'' of
             None \<Rightarrow> (Threw TypeError, s)
           | Some err \<Rightarrow>
               andThen (viewerAPI_fire ''realtimeerror''
                          (Some [(''error'', if truthy err then err else JStr ''unspecified error'')]) s)
                       realtime_destroy)"

definition handleFinishedEvent :: "plugin \<Rightarrow> outcome \<times> plugin" where
  "handleFinishedEvent s =
     (if \<not> viewerConfig_set s then (Threw TypeError, s)
      else andThen (andThen (broadcastMessageWhenReady ''pageavailable''
                               [(''upto'', numPages (config s))] s)
                            (viewerAPI_fire ''realtimecomplete'' None))
                   realtime_destroy)"

definition registerBoxViewPageEventHandlers :: "env \<Rightarrow> plugin \<Rightarrow> outcome \<times> plugin" where
  "registerBoxViewPageEventHandlers e s =
     (if svg e
      then andThen (andThen (realtime_on ''pageavailable.svg'' HandlePageAvailableEvent s)
                            (realtime_on ''finished.svg'' HandleFinishedEvent))
                   (realtime_on ''failed.svg'' HandleErrorEvent)
      else andThen (andThen (realtime_on ''pageavailable.png'' HandlePageAvailableEvent s)
                            (realtime_on ''finished.png'' HandleFinishedEvent))
                   (realtime_on ''failed.png'' HandleErrorEvent))"

definition onmessage :: "plugin \<Rightarrow> outcome \<times> plugin" where
  "onmessage s = handleReadyMessage s"

text \<open>The argument of \<open>init\<close>: the plugin's configuration with its \<open>url\<close> member.\<close>

record init_config =
  url :: jsval

definition init :: "env \<Rightarrow> init_config \<Rightarrow> plugin \<Rightarrow> outcome \<times> plugin" where
  "init e c s =
     (if truthy (url c)
      then (case Realtime e (url c) s of
              (Inl x, s1) \<Rightarrow> (Threw x, s1)
            | (Inr r, s1) \<Rightarrow>
                andThen (realtime_on ''error'' HandleErrorEvent (s1\<lparr>realtime := RObj r\<rparr>))
                  (\<lambda>s2. if \<not> viewerConfig_set s2 then (Threw TypeError, s2)
                        else registerBoxViewPageEventHandlers e
                               (s2\<lparr>config := (config s2)\<lparr>conversionIsComplete := JBool False\<rparr>\<rparr>)))
      else (Returned, s))"

definition destroy :: "plugin \<Rightarrow> outcome \<times> plugin" where
  "destroy s =
     (let s1 = (case realtime s of
                  RObj r \<Rightarrow> (case Realtime_destroy r s of (r', s') \<Rightarrow> s'\<lparr>realtime := RNull\<rparr>)
                | _ \<Rightarrow> s)
      in (Returned, s1\<lparr>util_set := False, viewerAPI_set := False, viewerConfig_set := False,
                       messageQueue := None\<rparr>))"

subsection \<open>The host: construction, event delivery, lifetimes\<close>

text \<open>
  The closure as \<open>Crocodoc.addPlugin\<close>'s callback leaves it, for a viewer with the given
  configuration object: not ready, an empty queue, \<open>realtime\<close> undefined.
\<close>

definition create :: "viewer_config \<Rightarrow> plugin" where
  "create vc =
     \<lparr>util_set = True, viewerConfig_set = True, viewerAPI_set = True, config = vc,
      realtime = RUndefined, ready = False, messageQueue = Some [], sources = [],
      host_log = []\<rparr>"

fun call_handler :: "env \<Rightarrow> handler \<Rightarrow> jsval \<Rightarrow> plugin \<Rightarrow> outcome \<times> plugin" where
  "call_handler e HandlePageAvailableEvent data s = handlePageAvailableEvent e data s"
| "call_handler e HandleFinishedEvent data s = handleFinishedEvent s"
| "call_handler e HandleErrorEvent data s = handleErrorEvent e data s"

text \<open>
  The platform's delivery of a named event with the given \<open>data\<close> to EventSource \<open>k\<close>, as
  the spec describes the transport (closing the subscription stops further dispatch): a
  closed EventSource dispatches nothing; an open one calls the listeners registered for
  the name, in the order registered. What a listener throws is reported by the platform
  and stops neither the other listeners nor later events.
\<close>

definition listeners_for :: "string \<Rightarrow> event_source \<Rightarrow> handler list" where
  "listeners_for name src = map snd (filter (\<lambda>l. fst l = name) (listeners src))"

definition deliver :: "env \<Rightarrow> nat \<Rightarrow> string \<Rightarrow> jsval \<Rightarrow> plugin \<Rightarrow> plugin" where
  "deliver e k name data s =
     (if k < length (sources s) \<and> \<not> closed (sources s ! k)
      then foldl (\<lambda>s' h. snd (call_handler e h data s')) s (listeners_for name (sources s ! k))
      else s)"

text \<open>
  What happens to an initialised plugin: the viewer's \<open>ready\<close> message, a stream event
  delivered by the transport, the host's \<open>destroy()\<close>.
\<close>

datatype action = ReadyMessage | StreamEvent nat string jsval | DestroyPlugin

fun step :: "env \<Rightarrow> plugin \<Rightarrow> action \<Rightarrow> plugin" where
  "step e s ReadyMessage = snd (onmessage s)"
| "step e s (StreamEvent k name data) = deliver e k name data s"
| "step e s DestroyPlugin = snd (destroy s)"

definition run :: "env \<Rightarrow> plugin \<Rightarrow> action list \<Rightarrow> plugin" where
  "run e s acts = foldl (step e) s acts"

text \<open>
  A plugin lifetime: the closure is created, the viewer calls \<open>init\<close> once, then any
  sequence of actions follows.
\<close>

definition lifetime :: "env \<Rightarrow> viewer_config \<Rightarrow> init_config \<Rightarrow> action list \<Rightarrow> plugin" where
  "lifetime e vc c acts = run e (snd (init e c (create vc))) acts"

subsection \<open>Notions the properties are stated with\<close>

text \<open>A sequence of calls of \<open>broadcastMessageWhenReady\<close>, one per message, in order.\<close>

fun emit_calls :: "message list \<Rightarrow> plugin \<Rightarrow> outcome \<times> plugin" where
  "emit_calls [] s = (Returned, s)"
| "emit_calls (m # ms) s =
     andThen (broadcastMessageWhenReady (fst m) (snd m) s) (emit_calls ms)"

text \<open>The \<open>scope.broadcast\<close> call that delivers a message to the viewer's message bus.\<close>

definition delivery :: "message \<Rightarrow> effect" where
  "delivery m = Broadcast (fst m) (snd m)"

text \<open>The notification \<open>pageavailable\<close> with payload \<open>{ page: p }\<close>.\<close>

definition page_message :: "jsval \<Rightarrow> message" where
  "page_message p = (''pageavailable'', [(''page'', p)])"

text \<open>
  The messages waiting in the queue; none when \<open>destroy\<close> has set \<open>messageQueue\<close> to
  \<open>null\<close>. The invariant of the gate: a ready plugin has no message waiting.
\<close>

definition pending :: "plugin \<Rightarrow> message list" where
  "pending s = (case messageQueue s of None \<Rightarrow> [] | Some q \<Rightarrow> q)"

definition gate_inv :: "plugin \<Rightarrow> bool" where
  "gate_inv s = (ready s \<longrightarrow> pending s = [])"

text \<open>
  The plugin is active on EventSource \<open>k\<close>: \<open>realtime\<close> holds a Realtime object whose
  \<open>eventSource\<close> is \<open>k\<close>, which is open, and \<open>destroy\<close> has not released the closure's
  references.
\<close>

definition active :: "plugin \<Rightarrow> nat \<Rightarrow> bool" where
  "active s k =
     (realtime s = RObj \<lparr>eventSource = Some k\<rparr> \<and> k < length (sources s) \<and>
      \<not> closed (sources s ! k) \<and> util_set s \<and> viewerConfig_set s \<and> viewerAPI_set s \<and>
      messageQueue s \<noteq> None)"

text \<open>The terminal signals on the host API.\<close>

fun terminal :: "effect \<Rightarrow> bool" where
  "terminal (Fire name data) = (name = ''realtimeerror'' \<or> name = ''realtimecomplete'')"
| "terminal _ = False"

text \<open>
  How the gate's variables may change in a step that is not the ready message: the flag
  stays as it is, and so does the queue once the flag is set.
\<close>

definition gate_step :: "plugin \<Rightarrow> plugin \<Rightarrow> bool" where
  "gate_step s s' = (ready s' = ready s \<and> (ready s \<longrightarrow> messageQueue s' = messageQueue s))"

text \<open>
  A host for the examples: a browser with EventSource and SVG support. Its
  \<open>util.parseJSON\<close> is a stand-in that decodes the three payloads the examples use and
  throws on any other input, as a JSON decoder does on the text \<open>boom\<close>.
\<close>

definition sample_parseJSON :: "jsval \<Rightarrow> decoded option" where
  \<open>sample_parseJSON d =
     (if d = JStr ''{"pages":[3,1,2]}'' then Some (Object [''pages'' \<mapsto> JArr [JNum 3, JNum 1, JNum 2]])
      else if d = JStr ''{"error":"timeout"}'' then Some (Object [''error'' \<mapsto> JStr ''timeout''])
      else if d = JStr ''null'' then Some (Value JNull)
      else None)\<close>

definition sample_env :: env where
  "sample_env = \<lparr>hasEventSource = True, svg = True, parseJSON = sample_parseJSON\<rparr>"

definition sample_config :: viewer_config where
  "sample_config = \<lparr>numPages = JNum 10, conversionIsComplete = JBool True\<rparr>"

definition sample_init :: init_config where
  "sample_init = \<lparr>url = JStr ''https://view-api.box.com/1/sessions/42/events''\<rparr>"

text \<open>The listeners that \<open>init\<close> registers on the EventSource it opens, in order.\<close>

definition registered :: "env \<Rightarrow> (string \<times> handler) list" where
  "registered e =
     (if svg e
      then [(''error'', HandleErrorEvent), (''pageavailable.svg'', HandlePageAvailableEvent),
            (''finished.svg'', HandleFinishedEvent), (''failed.svg'', HandleErrorEvent)]
      else [(''error'', HandleErrorEvent), (''pageavailable.png'', HandlePageAvailableEvent),
            (''finished.png'', HandleFinishedEvent), (''failed.png'', HandleErrorEvent)])"

text \<open>
  What \<open>realtime.destroy()\<close> leaves of the objects of an active plugin: EventSource \<open>k\<close>
  closed and the Realtime object's \<open>eventSource\<close> set to \<open>null\<close>.
\<close>

definition closed_at :: "nat \<Rightarrow> plugin \<Rightarrow> plugin" where
  "closed_at k s =
     s\<lparr>realtime := RObj \<lparr>eventSource = None\<rparr>,
       sources := (sources s)[k := (sources s ! k)\<lparr>closed := True\<rparr>]\<rparr>"

text \<open>
  A step that touches neither the subscription nor the references of the closure, keeps
  a queue that exists, and fires no terminal signal.
\<close>

definition quiet :: "plugin \<Rightarrow> plugin \<Rightarrow> bool" where
  "quiet s s' =
     (sources s' = sources s \<and> realtime s' = realtime s \<and> util_set s' = util_set s \<and>
      viewerConfig_set s' = viewerConfig_set s \<and> viewerAPI_set s' = viewerAPI_set s \<and>
      config s' = config s \<and> (messageQueue s \<noteq> None \<longrightarrow> messageQueue s' \<noteq> None) \<and>
      filter terminal (host_log s') = filter terminal (host_log s))"

text \<open>
  The two kinds of state a lifetime passes through: streaming (one EventSource, open, with
  the registered listeners, the plugin active on it, no terminal signal fired yet) and
  settled (every EventSource closed, at most one terminal signal fired).
\<close>

definition streaming :: "env \<Rightarrow> plugin \<Rightarrow> bool" where
  "streaming e s =
     (length (sources s) = 1 \<and> listeners (sources s ! 0) = registered e \<and> active s 0 \<and>
      filter terminal (host_log s) = [])"

definition settled :: "plugin \<Rightarrow> bool" where
  "settled s =
     (list_all closed (sources s) \<and> length (filter terminal (host_log s)) \<le> 1)"

section \<open>The readiness gate\<close>

declare broadcastQueuedMessages.simps [simp del]

lemma broadcastQueuedMessages_drain:
  "messageQueue s = Some q \<Longrightarrow>
   broadcastQueuedMessages s =
     (Returned, s\<lparr>messageQueue := Some [], host_log := host_log s @ map delivery q\<rparr>)"
proof (induction q arbitrary: s)
  case Nil
  then show ?case by (subst broadcastQueuedMessages.simps) simp
next
  case (Cons m q)
  let ?s' = "scope_broadcast (fst m) (snd m) (s\<lparr>messageQueue := Some q\<rparr>)"
  have q': "messageQueue ?s' = Some q" by (simp add: scope_broadcast_def)
  have "broadcastQueuedMessages s = broadcastQueuedMessages ?s'"
    using Cons.prems by (subst broadcastQueuedMessages.simps) simp
  also have "\<dots> = (Returned, ?s'\<lparr>messageQueue := Some [],
                  host_log := host_log ?s' @ map delivery q\<rparr>)"
    by (rule Cons.IH [OF q'])
  finally show ?case by (simp add: scope_broadcast_def delivery_def)
qed

lemma broadcastQueuedMessages_null:
  "messageQueue s = None \<Longrightarrow> broadcastQueuedMessages s = (Threw TypeError, s)"
  by (subst broadcastQueuedMessages.simps) simp

lemma handleReadyMessage_live:
  "messageQueue s = Some q \<Longrightarrow>
   handleReadyMessage s =
     (Returned, s\<lparr>ready := True, messageQueue := Some [],
                  host_log := host_log s @ map delivery q\<rparr>)"
  by (simp add: handleReadyMessage_def broadcastQueuedMessages_drain)

lemma handleReadyMessage_null:
  "messageQueue s = None \<Longrightarrow> handleReadyMessage s = (Threw TypeError, s\<lparr>ready := True\<rparr>)"
  by (simp add: handleReadyMessage_def broadcastQueuedMessages_null)

lemma emit_calls_not_ready:
  "\<not> ready s \<Longrightarrow> messageQueue s = Some q \<Longrightarrow>
   emit_calls ms s = (Returned, s\<lparr>messageQueue := Some (q @ ms)\<rparr>)"
  by (induction ms arbitrary: s q) (simp_all add: broadcastMessageWhenReady_def)

lemma emit_calls_ready:
  "ready s \<Longrightarrow>
   emit_calls ms s = (Returned, s\<lparr>host_log := host_log s @ map delivery ms\<rparr>)"
  by (induction ms arbitrary: s)
     (simp_all add: broadcastMessageWhenReady_def scope_broadcast_def delivery_def)

lemma loop_emit_calls:
  "updateAvailablePages_loop ps s = emit_calls (map page_message ps) s"
proof (induction ps arbitrary: s)
  case Nil show ?case by simp
next
  case (Cons p ps)
  have "updateAvailablePages_loop ps = emit_calls (map page_message ps)"
    by (rule ext) (rule Cons.IH)
  then show ?case by (simp add: page_message_def [abs_def])
qed

text \<open>
  C1. Calls of \<open>broadcastMessageWhenReady\<close> made while the plugin is not ready all return
  and leave the host's log as it was: nothing reaches the message bus. The ready message
  that follows delivers the messages that were queued before, then the ones just emitted,
  each once, in the order emitted, and leaves the queue empty.
\<close>

theorem queued_until_ready_then_fifo:
  assumes "\<not> ready s" and "messageQueue s = Some q"
  shows "fst (emit_calls ms s) = Returned
       \<and> host_log (snd (emit_calls ms s)) = host_log s
       \<and> fst (handleReadyMessage (snd (emit_calls ms s))) = Returned
       \<and> host_log (snd (handleReadyMessage (snd (emit_calls ms s))))
           = host_log s @ map delivery (q @ ms)
       \<and> messageQueue (snd (handleReadyMessage (snd (emit_calls ms s)))) = Some []"
proof -
  have e: "emit_calls ms s = (Returned, s\<lparr>messageQueue := Some (q @ ms)\<rparr>)"
    using assms by (rule emit_calls_not_ready)
  have r: "handleReadyMessage (s\<lparr>messageQueue := Some (q @ ms)\<rparr>) =
        (Returned, s\<lparr>messageQueue := Some (q @ ms)\<rparr>\<lparr>ready := True, messageQueue := Some [],
            host_log := host_log (s\<lparr>messageQueue := Some (q @ ms)\<rparr>) @ map delivery (q @ ms)\<rparr>)"
    by (rule handleReadyMessage_live) simp
  show ?thesis by (simp add: e r)
qed

theorem queued_until_ready_then_fifo_witness:
  "\<not> ready (create \<lparr>numPages = JNum 10, conversionIsComplete = JBool True\<rparr>)
   \<and> messageQueue (create \<lparr>numPages = JNum 10, conversionIsComplete = JBool True\<rparr>) = Some []
   \<and> host_log (snd (emit_calls [page_message (JNum 3), page_message (JNum 1)]
       (create \<lparr>numPages = JNum 10, conversionIsComplete = JBool True\<rparr>))) = []
   \<and> host_log (snd (handleReadyMessage (snd (emit_calls [page_message (JNum 3), page_message (JNum 1)]
       (create \<lparr>numPages = JNum 10, conversionIsComplete = JBool True\<rparr>)))))
     = [Broadcast ''pageavailable'' [(''page'', JNum 3)], Broadcast ''pageavailable'' [(''page'', JNum 1)]]"
  using queued_until_ready_then_fifo [of "create \<lparr>numPages = JNum 10, conversionIsComplete = JBool True\<rparr>" "[]"
      "[page_message (JNum 3), page_message (JNum 1)]"]
  by (simp add: create_def page_message_def delivery_def)

lemma gate_step_refl: "gate_step s s"
  by (simp add: gate_step_def)

lemma gate_step_trans: "gate_step s t \<Longrightarrow> gate_step t u \<Longrightarrow> gate_step s u"
  by (auto simp: gate_step_def)

lemma gate_step_inv: "gate_step s t \<Longrightarrow> gate_inv s \<Longrightarrow> gate_inv t"
  by (auto simp: gate_step_def gate_inv_def pending_def)

lemma gate_step_andThen:
  assumes "gate_step s (snd x)" and "\<And>t. gate_step t (snd (f t))"
  shows "gate_step s (snd (andThen x f))"
proof (cases x)
  case (Pair out t)
  show ?thesis
  proof (cases out)
    case Returned
    with Pair assms(1) assms(2) [of t] show ?thesis by (auto intro: gate_step_trans)
  next
    case (Threw x)
    with Pair assms(1) show ?thesis by simp
  qed
qed

lemma gate_step_broadcastMessageWhenReady:
  "gate_step s (snd (broadcastMessageWhenReady name data s))"
  by (simp add: broadcastMessageWhenReady_def scope_broadcast_def gate_step_def split: option.splits)

lemma gate_step_viewerAPI_fire: "gate_step s (snd (viewerAPI_fire name data s))"
  by (simp add: viewerAPI_fire_def gate_step_def)

lemma gate_step_es_close: "gate_step s (es_close k s)"
  by (simp add: es_close_def gate_step_def)

lemma gate_step_realtime_destroy: "gate_step s (snd (realtime_destroy s))"
  using gate_step_es_close
  by (auto simp: realtime_destroy_def Realtime_destroy_def gate_step_def
           split: realtime_var.splits option.splits)

lemma gate_step_loop: "gate_step s (snd (updateAvailablePages_loop ps s))"
proof (induction ps arbitrary: s)
  case Nil show ?case by (simp add: gate_step_refl)
next
  case (Cons p ps)
  show ?case
    by (simp only: updateAvailablePages_loop.simps)
       (rule gate_step_andThen [OF gate_step_broadcastMessageWhenReady Cons.IH])
qed

lemma gate_step_handlePageAvailableEvent:
  "gate_step s (snd (handlePageAvailableEvent e data s))"
  by (simp add: handlePageAvailableEvent_def updateAvailablePages_def gate_step_refl gate_step_loop
           split: option.splits)

lemma gate_step_handleErrorEvent: "gate_step s (snd (handleErrorEvent e data s))"
  by (simp add: handleErrorEvent_def gate_step_refl gate_step_andThen
        gate_step_viewerAPI_fire gate_step_realtime_destroy split: option.splits)

lemma gate_step_handleFinishedEvent: "gate_step s (snd (handleFinishedEvent s))"
  by (simp add: handleFinishedEvent_def gate_step_refl gate_step_andThen
        gate_step_broadcastMessageWhenReady gate_step_viewerAPI_fire gate_step_realtime_destroy)

lemma gate_step_call_handler: "gate_step s (snd (call_handler e h data s))"
  by (cases h) (simp_all add: gate_step_handlePageAvailableEvent gate_step_handleErrorEvent
        gate_step_handleFinishedEvent)

lemma gate_step_handlers:
  "gate_step s (foldl (\<lambda>s' h. snd (call_handler e h data s')) s hs)"
proof (induction hs arbitrary: s)
  case Nil show ?case by (simp add: gate_step_refl)
next
  case (Cons h hs)
  show ?case
    using gate_step_trans [OF gate_step_call_handler Cons.IH] by simp
qed

lemma gate_step_deliver: "gate_step s (deliver e k name data s)"
  by (simp add: deliver_def gate_step_refl gate_step_handlers)

text \<open>The ready message and \<open>destroy\<close> leave a ready plugin without pending messages.\<close>

lemma handleReadyMessage_drained:
  "ready (snd (handleReadyMessage s)) \<and> pending (snd (handleReadyMessage s)) = []"
  by (cases "messageQueue s")
     (simp_all add: handleReadyMessage_live handleReadyMessage_null pending_def)

lemma destroy_gate:
  "ready (snd (destroy s)) = ready s \<and> pending (snd (destroy s)) = []"
  using gate_step_es_close
  by (auto simp: destroy_def Realtime_destroy_def pending_def gate_step_def Let_def
           split: realtime_var.splits option.splits)

lemma step_drained:
  "ready s \<and> pending s = [] \<Longrightarrow> ready (step e s a) \<and> pending (step e s a) = []"
proof (cases a)
  case ReadyMessage
  then show ?thesis by (simp add: onmessage_def handleReadyMessage_drained)
next
  case (StreamEvent k name data)
  assume "ready s \<and> pending s = []"
  with gate_step_deliver [of s e k name data] StreamEvent show ?thesis
    by (auto simp: gate_step_def pending_def)
next
  case DestroyPlugin
  assume "ready s \<and> pending s = []"
  with DestroyPlugin destroy_gate [of s] show ?thesis by simp
qed

lemma run_drained:
  "ready s \<and> pending s = [] \<Longrightarrow> ready (run e s acts) \<and> pending (run e s acts) = []"
  unfolding run_def
  by (induction acts arbitrary: s) (simp_all add: step_drained)

lemma step_gate_inv: "gate_inv s \<Longrightarrow> gate_inv (step e s a)"
proof (cases a)
  case ReadyMessage
  then show ?thesis by (simp add: onmessage_def handleReadyMessage_drained gate_inv_def)
next
  case (StreamEvent k name data)
  assume "gate_inv s"
  with gate_step_deliver [of s e k name data] StreamEvent show ?thesis
    by (simp add: gate_step_inv)
next
  case DestroyPlugin
  then show ?thesis using destroy_gate [of s] by (simp add: gate_inv_def)
qed

lemma run_gate_inv: "gate_inv s \<Longrightarrow> gate_inv (run e s acts)"
  unfolding run_def
  by (induction acts arbitrary: s) (simp_all add: step_gate_inv)

lemma handleReadyMessage_drained_log:
  "ready s \<Longrightarrow> pending s = [] \<Longrightarrow> host_log (snd (handleReadyMessage s)) = host_log s"
  by (cases "messageQueue s")
     (simp_all add: handleReadyMessage_live handleReadyMessage_null pending_def)

lemma run_snoc: "run e s (acts @ [a]) = step e (run e s acts) a"
  by (simp add: run_def)

text \<open>
  C4. The ready message is idempotent: a second call returns what the first returned and
  leaves the state of the first, so the log holds the queued messages once, not twice;
  and whatever happens after the first ready message, a later ready message adds nothing
  to the host's log.
\<close>

theorem handleReadyMessage_idempotent:
  "handleReadyMessage (snd (handleReadyMessage s)) = handleReadyMessage s
   \<and> (messageQueue s = Some q \<longrightarrow>
        host_log (snd (handleReadyMessage (snd (handleReadyMessage s))))
          = host_log s @ map delivery q)
   \<and> host_log (run e (snd (handleReadyMessage s)) (acts @ [ReadyMessage]))
       = host_log (run e (snd (handleReadyMessage s)) acts)"
proof (intro conjI impI)
  show idem: "handleReadyMessage (snd (handleReadyMessage s)) = handleReadyMessage s"
    by (cases "messageQueue s")
       (simp_all add: handleReadyMessage_live handleReadyMessage_null)
  show "host_log (snd (handleReadyMessage (snd (handleReadyMessage s))))
          = host_log s @ map delivery q" if "messageQueue s = Some q"
    using that by (simp add: idem handleReadyMessage_live)
  let ?t = "run e (snd (handleReadyMessage s)) acts"
  have "ready ?t \<and> pending ?t = []"
    by (rule run_drained) (rule handleReadyMessage_drained)
  then have "host_log (snd (handleReadyMessage ?t)) = host_log ?t"
    by (simp add: handleReadyMessage_drained_log)
  then show "host_log (run e (snd (handleReadyMessage s)) (acts @ [ReadyMessage])) = host_log ?t"
    by (simp add: run_snoc onmessage_def)
qed

theorem handleReadyMessage_idempotent_witness:
  "messageQueue (snd (emit_calls [page_message (JNum 3), page_message (JNum 1)]
       (create \<lparr>numPages = JNum 10, conversionIsComplete = JBool True\<rparr>)))
     = Some [page_message (JNum 3), page_message (JNum 1)]
   \<and> host_log (snd (handleReadyMessage (snd (handleReadyMessage
       (snd (emit_calls [page_message (JNum 3), page_message (JNum 1)]
          (create \<lparr>numPages = JNum 10, conversionIsComplete = JBool True\<rparr>)))))))
     = [Broadcast ''pageavailable'' [(''page'', JNum 3)], Broadcast ''pageavailable'' [(''page'', JNum 1)]]"
  using handleReadyMessage_idempotent
    [of "snd (emit_calls [page_message (JNum 3), page_message (JNum 1)]
          (create \<lparr>numPages = JNum 10, conversionIsComplete = JBool True\<rparr>))"
        "[page_message (JNum 3), page_message (JNum 1)]"
        "\<lparr>hasEventSource = True, svg = True, parseJSON = (\<lambda>d. None)\<rparr>" "[]",
     THEN conjunct2, THEN conjunct1]
  by (simp add: create_def page_message_def delivery_def broadcastMessageWhenReady_def)

section \<open>init and the gate\<close>

lemma gate_step_addEventListener: "gate_step s (addEventListener k name h s)"
  by (simp add: addEventListener_def gate_step_def Let_def)

lemma gate_step_realtime_on: "gate_step s (snd (realtime_on name h s))"
  by (simp add: realtime_on_def Realtime_on_def gate_step_refl gate_step_addEventListener
           split: realtime_var.splits option.splits)

lemma gate_step_registerBoxViewPageEventHandlers:
  "gate_step s (snd (registerBoxViewPageEventHandlers e s))"
  by (simp add: registerBoxViewPageEventHandlers_def gate_step_andThen gate_step_realtime_on)

lemma gate_step_init: "gate_step s (snd (init e c s))"
proof (cases "truthy (url c) \<and> hasEventSource e")
  case False
  then show ?thesis by (auto simp: init_def Realtime_def gate_step_refl)
next
  case True
  let ?s1 = "s\<lparr>sources := sources s @ [new_EventSource (url c)],
               realtime := RObj \<lparr>eventSource = Some (length (sources s))\<rparr>\<rparr>"
  let ?f = "\<lambda>s2. if \<not> viewerConfig_set s2 then (Threw TypeError, s2)
                 else registerBoxViewPageEventHandlers e
                        (s2\<lparr>config := (config s2)\<lparr>conversionIsComplete := JBool False\<rparr>\<rparr>)"
  have i: "init e c s = andThen (realtime_on ''error'' HandleErrorEvent ?s1) ?f"
    using True by (simp add: init_def Realtime_def)
  have a: "gate_step s ?s1" by (simp add: gate_step_def)
  have f: "gate_step t (snd (?f t))" for t
  proof (cases "viewerConfig_set t")
    case False
    then show ?thesis by (simp add: gate_step_refl)
  next
    case True
    have "gate_step t (t\<lparr>config := (config t)\<lparr>conversionIsComplete := JBool False\<rparr>\<rparr>)"
      by (simp add: gate_step_def)
    from gate_step_trans [OF this gate_step_registerBoxViewPageEventHandlers]
    show ?thesis using True by simp
  qed
  have "gate_step ?s1 (snd (andThen (realtime_on ''error'' HandleErrorEvent ?s1) ?f))"
    by (rule gate_step_andThen [OF gate_step_realtime_on f])
  with a show ?thesis unfolding i by (rule gate_step_trans)
qed

lemma lifetime_gate_inv: "gate_inv (lifetime e vc c acts)"
proof -
  have "gate_inv (create vc)" by (simp add: gate_inv_def create_def)
  then have "gate_inv (snd (init e c (create vc)))"
    by (rule gate_step_inv [OF gate_step_init])
  then show ?thesis unfolding lifetime_def by (rule run_gate_inv)
qed

section \<open>The stream event handlers\<close>

text \<open>
  C5. A pageavailable event whose payload decodes to an object with \<open>pages\<close> the array
  \<open>[p1, ..., pn]\<close> makes exactly the calls of \<open>broadcastMessageWhenReady\<close> for
  \<open>{page: p1}\<close>, ..., \<open>{page: pn}\<close>, in the order of the array: n broadcasts on the
  message bus when the plugin is ready, n messages appended to the queue when it is not.
\<close>

theorem pages_emitted_in_order:
  assumes "util_set s" and "parseJSON e data = Some (Object ms)"
    and "ms ''pages'' = Some (JArr ps)"
  shows "handlePageAvailableEvent e data s = emit_calls (map page_message ps) s
       \<and> length (map page_message ps) = length ps
       \<and> (ready s \<longrightarrow> handlePageAvailableEvent e data s =
            (Returned, s\<lparr>host_log := host_log s @ map delivery (map page_message ps)\<rparr>))
       \<and> (\<not> ready s \<and> messageQueue s = Some q \<longrightarrow> handlePageAvailableEvent e data s =
            (Returned, s\<lparr>messageQueue := Some (q @ map page_message ps)\<rparr>))"
proof -
  have h: "handlePageAvailableEvent e data s = emit_calls (map page_message ps) s"
    using assms
    by (simp add: handlePageAvailableEvent_def updateAvailablePages_def loop_emit_calls)
  show ?thesis
    unfolding h by (simp add: emit_calls_ready emit_calls_not_ready)
qed

theorem pages_emitted_in_order_witness:
  \<open>util_set (snd (handleReadyMessage (create sample_config)))
   \<and> parseJSON sample_env (JStr ''{"pages":[3,1,2]}'')
       = Some (Object [''pages'' \<mapsto> JArr [JNum 3, JNum 1, JNum 2]])
   \<and> host_log (snd (handlePageAvailableEvent sample_env (JStr ''{"pages":[3,1,2]}'')
         (snd (handleReadyMessage (create sample_config)))))
       = [Broadcast ''pageavailable'' [(''page'', JNum 3)],
          Broadcast ''pageavailable'' [(''page'', JNum 1)],
          Broadcast ''pageavailable'' [(''page'', JNum 2)]]\<close>
  using pages_emitted_in_order
    [of "snd (handleReadyMessage (create sample_config))" sample_env
        \<open>JStr ''{"pages":[3,1,2]}''\<close> "[''pages'' \<mapsto> JArr [JNum 3, JNum 1, JNum 2]]"
        "[JNum 3, JNum 1, JNum 2]" "[]"]
  by (simp add: handleReadyMessage_live create_def sample_config_def sample_env_def
        sample_parseJSON_def page_message_def delivery_def broadcastMessageWhenReady_def
        scope_broadcast_def)

section \<open>Teardown and construction\<close>

lemma es_close_closed_sources: "sources s = [] \<Longrightarrow> es_close k s = s"
  by (simp add: es_close_def)

text \<open>
  C7. Teardown is total and idempotent. \<open>Realtime.destroy\<close> on an object whose
  \<open>eventSource\<close> is already \<open>null\<close> changes nothing, and a second call changes nothing
  more. The plugin's \<open>destroy\<close> returns from every state, a second call returns the state
  of the first, and where no Realtime object was ever constructed (no URL configured) it
  closes nothing and calls nothing on the host.
\<close>

theorem teardown_idempotent:
  "Realtime_destroy \<lparr>eventSource = None\<rparr> s = (\<lparr>eventSource = None\<rparr>, s)
   \<and> Realtime_destroy (fst (Realtime_destroy r s)) (snd (Realtime_destroy r s))
       = Realtime_destroy r s
   \<and> fst (destroy s) = Returned
   \<and> destroy (snd (destroy s)) = destroy s
   \<and> (realtime s = RUndefined \<longrightarrow>
        sources (snd (destroy s)) = sources s \<and> host_log (snd (destroy s)) = host_log s)
   \<and> (\<not> truthy (url c) \<longrightarrow>
        fst (destroy (snd (init e c (create vc)))) = Returned
        \<and> sources (snd (destroy (snd (init e c (create vc))))) = []
        \<and> host_log (snd (destroy (snd (init e c (create vc))))) = [])"
proof (intro conjI impI)
  show "Realtime_destroy \<lparr>eventSource = None\<rparr> s = (\<lparr>eventSource = None\<rparr>, s)"
    by (simp add: Realtime_destroy_def)
  show "Realtime_destroy (fst (Realtime_destroy r s)) (snd (Realtime_destroy r s))
       = Realtime_destroy r s"
    by (cases "eventSource r") (simp_all add: Realtime_destroy_def)
  show "fst (destroy s) = Returned" by (simp add: destroy_def Let_def)
  show "destroy (snd (destroy s)) = destroy s"
    by (cases "realtime s") (simp_all add: destroy_def Let_def split: prod.splits)
  show "sources (snd (destroy s)) = sources s" if "realtime s = RUndefined"
    using that by (simp add: destroy_def)
  show "host_log (snd (destroy s)) = host_log s" if "realtime s = RUndefined"
    using that by (simp add: destroy_def)
  show "fst (destroy (snd (init e c (create vc)))) = Returned" by (simp add: destroy_def Let_def)
  show "sources (snd (destroy (snd (init e c (create vc))))) = []" if "\<not> truthy (url c)"
    using that by (simp add: destroy_def init_def create_def)
  show "host_log (snd (destroy (snd (init e c (create vc))))) = []" if "\<not> truthy (url c)"
    using that by (simp add: destroy_def init_def create_def)
qed

theorem teardown_idempotent_witness:
  "realtime (create sample_config) = RUndefined
   \<and> \<not> truthy (url \<lparr>url = JUndefined\<rparr>)
   \<and> destroy (create sample_config) =
       (Returned, (create sample_config)\<lparr>util_set := False, viewerAPI_set := False,
                    viewerConfig_set := False, messageQueue := None\<rparr>)
   \<and> host_log (snd (destroy (snd (init sample_env \<lparr>url = JUndefined\<rparr> (create sample_config))))) = []
   \<and> host_log (snd (destroy (snd (destroy (snd (init sample_env sample_init (create sample_config)))))))
       = [Close 0]"
  using teardown_idempotent [of "create sample_config" "\<lparr>eventSource = None\<rparr>"
      "\<lparr>url = JUndefined\<rparr>" sample_env sample_config]
    teardown_idempotent [of "snd (init sample_env sample_init (create sample_config))"
      "\<lparr>eventSource = None\<rparr>" "\<lparr>url = JUndefined\<rparr>" sample_env sample_config]
  by (simp add: destroy_def init_def create_def sample_env_def sample_init_def Realtime_def
        realtime_on_def Realtime_on_def addEventListener_def
        registerBoxViewPageEventHandlers_def Realtime_destroy_def es_close_def
        new_EventSource_def Let_def)

lemma sources_scope_broadcast: "sources (scope_broadcast name data s) = sources s"
  by (simp add: scope_broadcast_def)

lemma sources_handleReadyMessage: "sources (snd (handleReadyMessage s)) = sources s"
  by (cases "messageQueue s") (simp_all add: handleReadyMessage_live handleReadyMessage_null)

lemma sources_destroy_none: "sources s = [] \<Longrightarrow> sources (snd (destroy s)) = []"
  by (simp add: destroy_def Realtime_destroy_def es_close_def Let_def
           split: realtime_var.splits option.splits)

lemma step_no_sources: "sources s = [] \<Longrightarrow> sources (step e s a) = []"
  by (cases a) (simp_all add: onmessage_def sources_handleReadyMessage deliver_def
        sources_destroy_none)

lemma run_no_sources: "sources s = [] \<Longrightarrow> sources (run e s acts) = []"
  unfolding run_def by (induction acts arbitrary: s) (simp_all add: step_no_sources)

text \<open>
  C8. In a host without EventSource the constructor throws its Error and constructs
  nothing; \<open>init\<close> with a configured URL does not catch it: it throws the same Error and
  leaves the plugin as it was; and no EventSource exists at any later point of the
  lifetime, so nothing is retried.
\<close>

theorem construction_requires_EventSource:
  assumes "\<not> hasEventSource e"
  shows "Realtime e u s = (Inl (Error ''Realtime plugin requires EventSource support''), s)
       \<and> (truthy (url c) \<longrightarrow>
            init e c s = (Threw (Error ''Realtime plugin requires EventSource support''), s))
       \<and> sources (lifetime e vc c acts) = []"
proof (intro conjI impI)
  show r: "Realtime e u s = (Inl (Error ''Realtime plugin requires EventSource support''), s)" for u
    using assms by (simp add: Realtime_def)
  show "init e c s = (Threw (Error ''Realtime plugin requires EventSource support''), s)"
    if "truthy (url c)"
    using that by (simp add: init_def r)
  have "sources (snd (init e c (create vc))) = []"
    using assms by (simp add: init_def Realtime_def create_def)
  then show "sources (lifetime e vc c acts) = []"
    unfolding lifetime_def by (rule run_no_sources)
qed

theorem construction_requires_EventSource_witness:
  "\<not> hasEventSource (sample_env\<lparr>hasEventSource := False\<rparr>)
   \<and> truthy (url sample_init)
   \<and> init (sample_env\<lparr>hasEventSource := False\<rparr>) sample_init (create sample_config)
       = (Threw (Error ''Realtime plugin requires EventSource support''), create sample_config)
   \<and> sources (lifetime (sample_env\<lparr>hasEventSource := False\<rparr>) sample_config sample_init
         [StreamEvent 0 ''finished.svg'' JUndefined]) = []"
  using construction_requires_EventSource
    [of "sample_env\<lparr>hasEventSource := False\<rparr>" "url sample_init" "create sample_config"
        sample_init sample_config "[StreamEvent 0 ''finished.svg'' JUndefined]"]
  by (simp add: sample_init_def)

section \<open>Initialisation\<close>

lemma init_opens:
  assumes "hasEventSource e" and "truthy (url c)" and "viewerConfig_set s"
  shows "init e c s =
     (Returned, s\<lparr>sources := sources s @ [\<lparr>es_url = url c, closed = False, listeners = registered e\<rparr>],
                  realtime := RObj \<lparr>eventSource = Some (length (sources s))\<rparr>,
                  config := (config s)\<lparr>conversionIsComplete := JBool False\<rparr>\<rparr>)"
  using assms
  by (cases "svg e")
     (simp_all add: init_def Realtime_def realtime_on_def Realtime_on_def addEventListener_def
        registerBoxViewPageEventHandlers_def new_EventSource_def registered_def Let_def)

lemma init_no_url: "\<not> truthy (url c) \<Longrightarrow> init e c s = (Returned, s)"
  by (simp add: init_def)

lemma init_no_EventSource:
  "truthy (url c) \<Longrightarrow> \<not> hasEventSource e \<Longrightarrow>
   init e c s = (Threw (Error ''Realtime plugin requires EventSource support''), s)"
  by (simp add: init_def Realtime_def)

section \<open>The terminal handlers on an active plugin\<close>

lemma realtime_destroy_active:
  "realtime s = RObj \<lparr>eventSource = Some k\<rparr> \<Longrightarrow> k < length (sources s) \<Longrightarrow>
   realtime_destroy s = (Returned, closed_at k (s\<lparr>host_log := host_log s @ [Close k]\<rparr>))"
  by (simp add: realtime_destroy_def Realtime_destroy_def es_close_def closed_at_def)

lemma handleFinishedEvent_active:
  assumes "active s k"
  shows "handleFinishedEvent s =
     (Returned,
      if ready s
      then closed_at k (s\<lparr>host_log := host_log s @
             [Broadcast ''pageavailable'' [(''upto'', numPages (config s))],
              Fire ''realtimecomplete'' None, Close k]\<rparr>)
      else closed_at k (s\<lparr>messageQueue :=
               Some (pending s @ [(''pageavailable'', [(''upto'', numPages (config s))])]),
             host_log := host_log s @ [Fire ''realtimecomplete'' None, Close k]\<rparr>))"
proof -
  from assms obtain q where q: "messageQueue s = Some q" by (auto simp: active_def)
  show ?thesis
    using assms q
    by (simp add: active_def handleFinishedEvent_def broadcastMessageWhenReady_def
          scope_broadcast_def viewerAPI_fire_def realtime_destroy_active pending_def)
qed

lemma handleErrorEvent_active:
  assumes "active s k"
  shows "handleErrorEvent e data s =
     (case member (decodeErrorData e data s) ''error'' of
        None \<Rightarrow> (Threw TypeError, s)
      | Some err \<Rightarrow>
          (Returned, closed_at k (s\<lparr>host_log := host_log s @
             [Fire ''realtimeerror''
                (Some [(''error'', if truthy err then err else JStr ''unspecified error'')]),
              Close k]\<rparr>)))"
  using assms
  by (simp add: active_def handleErrorEvent_def viewerAPI_fire_def realtime_destroy_active
           split: option.splits)

section \<open>Quiet steps\<close>

lemma quiet_refl: "quiet s s"
  by (simp add: quiet_def)

lemma quiet_trans: "quiet s t \<Longrightarrow> quiet t u \<Longrightarrow> quiet s u"
  by (simp add: quiet_def)

lemma quiet_andThen:
  assumes "quiet s (snd x)" and "\<And>t. quiet t (snd (f t))"
  shows "quiet s (snd (andThen x f))"
proof (cases x)
  case (Pair out t)
  show ?thesis
  proof (cases out)
    case Returned
    with Pair assms(1) assms(2) [of t] show ?thesis by (auto intro: quiet_trans)
  next
    case (Threw x)
    with Pair assms(1) show ?thesis by simp
  qed
qed

lemma quiet_broadcastMessageWhenReady: "quiet s (snd (broadcastMessageWhenReady name data s))"
  by (simp add: broadcastMessageWhenReady_def scope_broadcast_def quiet_def split: option.splits)

lemma quiet_loop: "quiet s (snd (updateAvailablePages_loop ps s))"
proof (induction ps arbitrary: s)
  case Nil show ?case by (simp add: quiet_refl)
next
  case (Cons p ps)
  show ?case
    by (simp only: updateAvailablePages_loop.simps)
       (rule quiet_andThen [OF quiet_broadcastMessageWhenReady Cons.IH])
qed

lemma quiet_handlePageAvailableEvent: "quiet s (snd (handlePageAvailableEvent e data s))"
  by (simp add: handlePageAvailableEvent_def updateAvailablePages_def quiet_refl quiet_loop
           split: option.splits)

lemma terminal_delivery: "filter terminal (map delivery q) = []"
  by (induction q) (simp_all add: delivery_def)

lemma quiet_handleReadyMessage: "quiet s (snd (handleReadyMessage s))"
  by (cases "messageQueue s")
     (simp_all add: handleReadyMessage_live handleReadyMessage_null quiet_def terminal_delivery)

lemma quiet_active: "quiet s t \<Longrightarrow> active s k \<Longrightarrow> active t k"
  by (simp add: quiet_def active_def)

lemma quiet_streaming: "quiet s t \<Longrightarrow> streaming e s \<Longrightarrow> streaming e t"
  by (simp add: streaming_def quiet_active) (simp add: quiet_def)

lemma quiet_settled: "quiet s t \<Longrightarrow> settled s \<Longrightarrow> settled t"
  by (simp add: quiet_def settled_def)

section \<open>The configuration object\<close>

lemma config_andThen:
  assumes "\<And>t. config (snd (f t)) = config t"
  shows "config (snd (andThen x f)) = config (snd x)"
proof (cases x)
  case (Pair out t)
  then show ?thesis using assms [of t] by (cases out) simp_all
qed

lemma config_realtime_destroy: "config (snd (realtime_destroy s)) = config s"
  by (simp add: realtime_destroy_def Realtime_destroy_def es_close_def
           split: realtime_var.splits option.splits)

lemma config_viewerAPI_fire: "config (snd (viewerAPI_fire name data s)) = config s"
  by (simp add: viewerAPI_fire_def)

lemma config_broadcastMessageWhenReady:
  "config (snd (broadcastMessageWhenReady name data s)) = config s"
  using quiet_broadcastMessageWhenReady [of s name data] by (simp add: quiet_def)

lemma config_handleFinishedEvent: "config (snd (handleFinishedEvent s)) = config s"
  by (simp add: handleFinishedEvent_def config_andThen config_realtime_destroy
        config_viewerAPI_fire config_broadcastMessageWhenReady)

lemma config_handleErrorEvent: "config (snd (handleErrorEvent e data s)) = config s"
  by (simp add: handleErrorEvent_def config_andThen config_realtime_destroy
        config_viewerAPI_fire split: option.splits)

lemma config_call_handler: "config (snd (call_handler e h data s)) = config s"
proof (cases h)
  case HandlePageAvailableEvent
  then show ?thesis using quiet_handlePageAvailableEvent [of s e data] by (simp add: quiet_def)
qed (simp_all add: config_handleFinishedEvent config_handleErrorEvent)

lemma config_handlers:
  "config (foldl (\<lambda>s' h. snd (call_handler e h data s')) s hs) = config s"
  by (induction hs arbitrary: s) (simp_all add: config_call_handler)

lemma config_destroy: "config (snd (destroy s)) = config s"
  by (simp add: destroy_def Realtime_destroy_def es_close_def Let_def
           split: realtime_var.splits option.splits)

lemma config_step: "config (step e s a) = config s"
proof (cases a)
  case ReadyMessage
  then show ?thesis using quiet_handleReadyMessage [of s] by (simp add: onmessage_def quiet_def)
next
  case (StreamEvent k name data)
  then show ?thesis by (simp add: deliver_def config_handlers)
next
  case DestroyPlugin
  then show ?thesis by (simp add: config_destroy)
qed

lemma config_run: "config (run e s acts) = config s"
  unfolding run_def by (induction acts arbitrary: s) (simp_all add: config_step)

text \<open>
  C9 (as amended). Where the host has EventSource, the \<open>init\<close> call of a lifetime with a
  configured URL returns and has set \<open>conversionIsComplete\<close> of the viewer's configuration
  to false, and it is false at every later point of the lifetime: no handler, ready
  message or \<open>destroy\<close> writes it.
\<close>

theorem init_marks_conversion_incomplete:
  assumes "hasEventSource e" and "truthy (url c)"
  shows "fst (init e c (create vc)) = Returned
       \<and> conversionIsComplete (config (snd (init e c (create vc)))) = JBool False
       \<and> conversionIsComplete (config (lifetime e vc c acts)) = JBool False"
proof -
  have v: "viewerConfig_set (create vc)" by (simp add: create_def)
  note i = init_opens [OF assms v]
  show ?thesis by (simp add: lifetime_def config_run i)
qed

theorem init_marks_conversion_incomplete_witness:
  "hasEventSource sample_env \<and> truthy (url sample_init)
   \<and> conversionIsComplete (config (create sample_config)) = JBool True
   \<and> conversionIsComplete (config (lifetime sample_env sample_config sample_init
         [StreamEvent 0 ''finished.svg'' JUndefined, ReadyMessage, DestroyPlugin])) = JBool False"
  using init_marks_conversion_incomplete
    [of sample_env sample_init sample_config
        "[StreamEvent 0 ''finished.svg'' JUndefined, ReadyMessage, DestroyPlugin]"]
  by (simp add: sample_env_def sample_init_def sample_config_def create_def)

text \<open>
  C9 as stated fails where the host has no EventSource: \<open>init\<close> with a configured URL
  throws in the constructor, before the assignment, and \<open>conversionIsComplete\<close> stays true.
\<close>

theorem init_without_EventSource_counterexample:
  "truthy (url sample_init)
   \<and> fst (init (sample_env\<lparr>hasEventSource := False\<rparr>) sample_init (create sample_config))
       = Threw (Error ''Realtime plugin requires EventSource support'')
   \<and> conversionIsComplete (config (snd
         (init (sample_env\<lparr>hasEventSource := False\<rparr>) sample_init (create sample_config))))
       = JBool True
   \<and> conversionIsComplete (config (snd
         (init (sample_env\<lparr>hasEventSource := False\<rparr>) sample_init (create sample_config))))
       \<noteq> JBool False"
  by (simp add: init_def Realtime_def sample_init_def sample_env_def sample_config_def create_def)

section \<open>Completion and failure\<close>

lemma deliver_closed:
  "k < length (sources s) \<longrightarrow> closed (sources s ! k) \<Longrightarrow> deliver e k name data s = s"
  by (auto simp: deliver_def)

lemma closed_at_closed: "k < length (sources s) \<Longrightarrow> closed (sources (closed_at k s) ! k)"
  by (simp add: closed_at_def)

text \<open>
  C2 (as amended). On an active plugin the finished handler returns, having passed
  \<open>pageavailable\<close> with \<open>{upto: numPages}\<close> to the readiness gate, then fired
  \<open>realtimecomplete\<close> on the host API, then closed the subscription. When the plugin is
  ready the notification is on the message bus before \<open>realtimecomplete\<close>; when it is not,
  the notification is appended to the queue and reaches the bus with the ready message,
  after \<open>realtimecomplete\<close>. Afterwards no stream event delivered to the subscription is
  dispatched.
\<close>

theorem finished_event_completes:
  assumes "active s k"
  shows "fst (handleFinishedEvent s) = Returned
       \<and> (ready s \<longrightarrow>
            host_log (snd (handleFinishedEvent s)) = host_log s @
              [Broadcast ''pageavailable'' [(''upto'', numPages (config s))],
               Fire ''realtimecomplete'' None, Close k]
            \<and> messageQueue (snd (handleFinishedEvent s)) = messageQueue s)
       \<and> (\<not> ready s \<longrightarrow>
            host_log (snd (handleFinishedEvent s)) = host_log s @
              [Fire ''realtimecomplete'' None, Close k]
            \<and> messageQueue (snd (handleFinishedEvent s)) =
                Some (pending s @ [(''pageavailable'', [(''upto'', numPages (config s))])])
            \<and> host_log (snd (handleReadyMessage (snd (handleFinishedEvent s)))) = host_log s @
                [Fire ''realtimecomplete'' None, Close k] @ map delivery (pending s) @
                [Broadcast ''pageavailable'' [(''upto'', numPages (config s))]])
       \<and> closed (sources (snd (handleFinishedEvent s)) ! k)
       \<and> deliver e k name data (snd (handleFinishedEvent s)) = snd (handleFinishedEvent s)"
proof -
  from assms have k: "k < length (sources s)" by (simp add: active_def)
  note h = handleFinishedEvent_active [OF assms]
  have c: "closed (sources (snd (handleFinishedEvent s)) ! k)"
    using k by (simp add: h closed_at_def)
  have d: "deliver e k name data (snd (handleFinishedEvent s)) = snd (handleFinishedEvent s)"
    by (rule deliver_closed) (simp add: c)
  have r: "host_log (snd (handleReadyMessage (snd (handleFinishedEvent s)))) = host_log s @
                [Fire ''realtimecomplete'' None, Close k] @ map delivery (pending s) @
                [Broadcast ''pageavailable'' [(''upto'', numPages (config s))]]"
    if "\<not> ready s"
  proof -
    let ?q = "pending s @ [(''pageavailable'', [(''upto'', numPages (config s))])]"
    have "messageQueue (snd (handleFinishedEvent s)) = Some ?q"
      using that by (simp add: h closed_at_def)
    from handleReadyMessage_live [OF this] show ?thesis
      using that by (simp add: h closed_at_def delivery_def)
  qed
  show ?thesis
    using c d r by (simp add: h closed_at_def)
qed

lemma sample_active:
  "active (snd (init sample_env sample_init (create sample_config))) 0"
proof -
  have "hasEventSource sample_env" "truthy (url sample_init)" "viewerConfig_set (create sample_config)"
    by (simp_all add: sample_env_def sample_init_def create_def)
  from init_opens [OF this] show ?thesis
    by (simp add: active_def create_def)
qed

lemma sample_active_ready:
  "active (snd (handleReadyMessage (snd (init sample_env sample_init (create sample_config))))) 0"
  using quiet_active [OF quiet_handleReadyMessage sample_active] .

lemma sample_ready_state:
  "snd (handleReadyMessage (snd (init sample_env sample_init (create sample_config)))) =
    (create sample_config)\<lparr>sources := [\<lparr>es_url = url sample_init, closed = False,
                                        listeners = registered sample_env\<rparr>],
       realtime := RObj \<lparr>eventSource = Some 0\<rparr>,
       config := sample_config\<lparr>conversionIsComplete := JBool False\<rparr>,
       ready := True\<rparr>"
proof -
  have "hasEventSource sample_env" "truthy (url sample_init)" "viewerConfig_set (create sample_config)"
    by (simp_all add: sample_env_def sample_init_def create_def)
  from init_opens [OF this] show ?thesis
    by (simp add: handleReadyMessage_live create_def)
qed

theorem finished_event_completes_witness:
  "active (snd (handleReadyMessage (snd (init sample_env sample_init (create sample_config))))) 0
   \<and> ready (snd (handleReadyMessage (snd (init sample_env sample_init (create sample_config)))))
   \<and> host_log (snd (handleFinishedEvent
        (snd (handleReadyMessage (snd (init sample_env sample_init (create sample_config)))))))
      = [Broadcast ''pageavailable'' [(''upto'', JNum 10)], Fire ''realtimecomplete'' None, Close 0]"
  using finished_event_completes [OF sample_active_ready, of sample_env "''pageavailable.svg''" "JUndefined"]
    sample_active_ready
  by (simp add: sample_ready_state) (simp add: create_def sample_config_def)

text \<open>
  C2 as stated fails when the finished event arrives before the viewer is ready: the
  handler has fired \<open>realtimecomplete\<close> and closed the subscription, and the message bus
  has received nothing; the notification waits in the queue.
\<close>

theorem finished_before_ready_counterexample:
  "active (snd (init sample_env sample_init (create sample_config))) 0
   \<and> host_log (snd (handleFinishedEvent (snd (init sample_env sample_init (create sample_config)))))
       = [Fire ''realtimecomplete'' None, Close 0]
   \<and> messageQueue (snd (handleFinishedEvent (snd (init sample_env sample_init (create sample_config)))))
       = Some [(''pageavailable'', [(''upto'', JNum 10)])]
   \<and> host_log (lifetime sample_env sample_config sample_init
         [StreamEvent 0 ''finished.svg'' JUndefined])
       = [Fire ''realtimecomplete'' None, Close 0]"
proof -
  have i: "hasEventSource sample_env" "truthy (url sample_init)" "viewerConfig_set (create sample_config)"
    by (simp_all add: sample_env_def sample_init_def create_def)
  note o = init_opens [OF i]
  note h = handleFinishedEvent_active [OF sample_active]
  have l: "listeners_for ''finished.svg''
             \<lparr>es_url = url sample_init, closed = False, listeners = registered sample_env\<rparr>
           = [HandleFinishedEvent]"
    by (simp add: listeners_for_def registered_def sample_env_def)
  have n: "\<not> ready (snd (init sample_env sample_init (create sample_config)))"
    unfolding o by (simp add: create_def)
  have a: "host_log (snd (handleFinishedEvent (snd (init sample_env sample_init (create sample_config)))))
       = [Fire ''realtimecomplete'' None, Close 0]"
    using n by (simp add: h closed_at_def) (simp add: o, simp add: create_def)
  have b: "messageQueue (snd (handleFinishedEvent (snd (init sample_env sample_init (create sample_config)))))
       = Some [(''pageavailable'', [(''upto'', JNum 10)])]"
    using n by (simp add: h closed_at_def)
      (simp add: o pending_def, simp add: create_def sample_config_def)
  have d: "deliver sample_env 0 ''finished.svg'' JUndefined
             (snd (init sample_env sample_init (create sample_config)))
           = snd (handleFinishedEvent (snd (init sample_env sample_init (create sample_config))))"
    unfolding o using l by (simp add: deliver_def create_def)
  show ?thesis
    using sample_active a b by (simp add: lifetime_def run_def d)
qed

lemma sample_init_state:
  "snd (init sample_env sample_init (create sample_config)) =
    (create sample_config)\<lparr>sources := [\<lparr>es_url = url sample_init, closed = False,
                                        listeners = registered sample_env\<rparr>],
       realtime := RObj \<lparr>eventSource = Some 0\<rparr>,
       config := sample_config\<lparr>conversionIsComplete := JBool False\<rparr>\<rparr>"
proof -
  have "hasEventSource sample_env" "truthy (url sample_init)" "viewerConfig_set (create sample_config)"
    by (simp_all add: sample_env_def sample_init_def create_def)
  from init_opens [OF this] show ?thesis
    by (simp add: create_def)
qed

lemma decodeErrorData_examples:
  \<open>member (decodeErrorData sample_env (JStr ''{"error":"timeout"}'') (create sample_config)) ''error''
     = Some (JStr ''timeout'')\<close>
  \<open>member (decodeErrorData sample_env (JStr ''boom'') (create sample_config)) ''error''
     = Some (JStr ''boom'')\<close>
  by (simp_all add: decodeErrorData_def sample_env_def sample_parseJSON_def create_def)

text \<open>
  C6, at a payload that decodes to \<open>null\<close>: on an active plugin the error handler throws a
  TypeError when it reads \<open>data.error\<close>, outside its \<open>try\<close>. Delivering a failed event
  with this payload leaves the plugin as it was: no \<open>realtimeerror\<close> is fired and the
  subscription stays open.
\<close>

theorem error_event_null_payload_throws:
  \<open>active (snd (init sample_env sample_init (create sample_config))) 0
   \<and> parseJSON sample_env (JStr ''null'') = Some (Value JNull)
   \<and> handleErrorEvent sample_env (JStr ''null'')
        (snd (init sample_env sample_init (create sample_config)))
       = (Threw TypeError, snd (init sample_env sample_init (create sample_config)))
   \<and> lifetime sample_env sample_config sample_init [StreamEvent 0 ''failed.svg'' (JStr ''null'')]
       = snd (init sample_env sample_init (create sample_config))
   \<and> host_log (lifetime sample_env sample_config sample_init
         [StreamEvent 0 ''failed.svg'' (JStr ''null'')]) = []
   \<and> \<not> closed (sources (lifetime sample_env sample_config sample_init
         [StreamEvent 0 ''failed.svg'' (JStr ''null'')]) ! 0)\<close>
proof -
  let ?s = "snd (init sample_env sample_init (create sample_config))"
  have p: "parseJSON sample_env (JStr ''null'') = Some (Value JNull)"
    by (simp add: sample_env_def sample_parseJSON_def)
  have u: "util_set ?s" using sample_active by (simp add: active_def)
  have m: "member (decodeErrorData sample_env (JStr ''null'') ?s) ''error'' = None"
    by (simp add: decodeErrorData_def u p)
  have h: "handleErrorEvent sample_env (JStr ''null'') ?s = (Threw TypeError, ?s)"
    by (simp add: handleErrorEvent_active [OF sample_active] m)
  have l: "listeners_for ''failed.svg''
             \<lparr>es_url = url sample_init, closed = False, listeners = registered sample_env\<rparr>
           = [HandleErrorEvent]"
    by (simp add: listeners_for_def registered_def sample_env_def)
  have "deliver sample_env 0 ''failed.svg'' (JStr ''null'') ?s
          = foldl (\<lambda>s' h. snd (call_handler sample_env h (JStr ''null'') s')) ?s [HandleErrorEvent]"
    unfolding sample_init_state using l by (simp add: deliver_def)
  then have d: "deliver sample_env 0 ''failed.svg'' (JStr ''null'') ?s = ?s"
    by (simp add: h)
  have lt: "lifetime sample_env sample_config sample_init
              [StreamEvent 0 ''failed.svg'' (JStr ''null'')] = ?s"
    by (simp add: lifetime_def run_def d)
  have e: "host_log ?s = []" "\<not> closed (sources ?s ! 0)"
    unfolding sample_init_state by (simp_all add: create_def)
  show ?thesis
    using sample_active p h e unfolding lt by simp
qed

section \<open>At most one terminal signal\<close>

lemma listeners_for_registered:
  "listeners src = registered e \<Longrightarrow>
   listeners_for name src = [] \<or> (\<exists>h. listeners_for name src = [h])"
  by (cases "svg e") (auto simp: listeners_for_def registered_def)

lemma closed_at_settles:
  assumes "length (sources s) = 1" and "length (filter terminal (host_log s)) \<le> 1"
  shows "settled (closed_at 0 s)"
proof -
  from assms(1) obtain src where "sources s = [src]"
    by (cases "sources s") simp_all
  with assms(2) show ?thesis by (simp add: settled_def closed_at_def)
qed

lemma streaming_call_handler:
  assumes "streaming e s"
  shows "settled (snd (call_handler e h data s)) \<or> streaming e (snd (call_handler e h data s))"
proof -
  from assms have a: "active s 0" and l: "length (sources s) = 1"
    and t: "filter terminal (host_log s) = []"
    by (simp_all add: streaming_def)
  show ?thesis
  proof (cases h)
    case HandlePageAvailableEvent
    then show ?thesis
      using quiet_streaming [OF quiet_handlePageAvailableEvent assms] by simp
  next
    case HandleFinishedEvent
    have "settled (snd (handleFinishedEvent s))"
      using l t by (simp add: handleFinishedEvent_active [OF a] closed_at_settles)
    with HandleFinishedEvent show ?thesis by simp
  next
    case HandleErrorEvent
    show ?thesis
    proof (cases "member (decodeErrorData e data s) ''error''")
      case None
      with HandleErrorEvent assms show ?thesis
        by (simp add: handleErrorEvent_active [OF a])
    next
      case (Some err)
      have "settled (snd (handleErrorEvent e data s))"
        using l t by (simp add: handleErrorEvent_active [OF a] Some closed_at_settles)
      with HandleErrorEvent show ?thesis by simp
    qed
  qed
qed

lemma list_all_closed_update:
  "list_all closed xs \<Longrightarrow> list_all closed (xs[k := (xs ! k)\<lparr>closed := True\<rparr>])"
  by (induction xs arbitrary: k) (auto split: nat.splits)

lemma settled_es_close: "settled s \<Longrightarrow> settled (es_close k s)"
  by (simp add: settled_def es_close_def list_all_closed_update)

lemma settled_destroy: "settled s \<Longrightarrow> settled (snd (destroy s))"
proof -
  assume s: "settled s"
  have "settled (es_close k s)" for k using s by (rule settled_es_close)
  then show ?thesis
    using s
    by (auto simp: destroy_def Realtime_destroy_def Let_def settled_def
             split: realtime_var.splits option.splits)
qed

lemma streaming_destroy: "streaming e s \<Longrightarrow> settled (snd (destroy s))"
proof -
  assume s: "streaming e s"
  then obtain src where "sources s = [src]"
    by (cases "sources s") (simp_all add: streaming_def)
  with s show ?thesis
    by (simp add: streaming_def active_def destroy_def Realtime_destroy_def es_close_def
          settled_def Let_def)
qed

lemma settled_deliver: "settled s \<Longrightarrow> deliver e k name data s = s"
  by (rule deliver_closed) (simp add: settled_def list_all_length)

lemma streaming_deliver:
  assumes "streaming e s"
  shows "settled (deliver e k name data s) \<or> streaming e (deliver e k name data s)"
proof (cases "k < length (sources s) \<and> \<not> closed (sources s ! k)")
  case False
  then have "k < length (sources s) \<longrightarrow> closed (sources s ! k)" by blast
  then have "deliver e k name data s = s" by (rule deliver_closed)
  with assms show ?thesis by simp
next
  case True
  with assms have k: "k = 0" by (simp add: streaming_def)
  from assms have "listeners (sources s ! 0) = registered e" by (simp add: streaming_def)
  from listeners_for_registered [OF this, of name]
  show ?thesis
  proof
    assume "listeners_for name (sources s ! 0) = []"
    then show ?thesis using assms k by (simp add: deliver_def)
  next
    assume "\<exists>h. listeners_for name (sources s ! 0) = [h]"
    then obtain h where "listeners_for name (sources s ! 0) = [h]" ..
    then have "deliver e k name data s = snd (call_handler e h data s)"
      using True k by (simp add: deliver_def)
    then show ?thesis using streaming_call_handler [OF assms, of h data] by simp
  qed
qed

lemma step_settled_or_streaming:
  assumes "settled s \<or> streaming e s"
  shows "settled (step e s a) \<or> streaming e (step e s a)"
proof (cases a)
  case ReadyMessage
  then show ?thesis
    using assms quiet_settled [OF quiet_handleReadyMessage, of s]
      quiet_streaming [OF quiet_handleReadyMessage, of e s]
    by (auto simp: onmessage_def)
next
  case (StreamEvent k name data)
  then show ?thesis
    using assms settled_deliver [of s e k name data] streaming_deliver [of e s k name data]
    by auto
next
  case DestroyPlugin
  then show ?thesis
    using assms settled_destroy [of s] streaming_destroy [of e s] by auto
qed

lemma run_settled_or_streaming:
  "settled s \<or> streaming e s \<Longrightarrow> settled (run e s acts) \<or> streaming e (run e s acts)"
  unfolding run_def
proof (induction acts arbitrary: s)
  case Nil then show ?case by simp
next
  case (Cons a acts)
  from step_settled_or_streaming [OF Cons.prems] have "settled (step e s a) \<or> streaming e (step e s a)" .
  from Cons.IH [OF this] show ?case by simp
qed

lemma init_settled_or_streaming:
  "settled (snd (init e c (create vc))) \<or> streaming e (snd (init e c (create vc)))"
proof (cases "truthy (url c)")
  case False
  then show ?thesis by (simp add: init_no_url settled_def create_def)
next
  case u: True
  show ?thesis
  proof (cases "hasEventSource e")
    case False
    with u show ?thesis by (simp add: init_no_EventSource settled_def create_def)
  next
    case True
    have "viewerConfig_set (create vc)" by (simp add: create_def)
    from init_opens [OF True u this] have "streaming e (snd (init e c (create vc)))"
      by (simp add: streaming_def active_def create_def)
    then show ?thesis ..
  qed
qed

lemma lifetime_settled_or_streaming:
  "settled (lifetime e vc c acts) \<or> streaming e (lifetime e vc c acts)"
  unfolding lifetime_def by (rule run_settled_or_streaming [OF init_settled_or_streaming])

text \<open>
  C3. In every plugin lifetime, whatever stream events, ready messages and \<open>destroy\<close>
  calls it consists of, the host API receives at most one terminal signal
  (\<open>realtimeerror\<close> or \<open>realtimecomplete\<close>, so never both and never one twice), and once it
  has received one, every EventSource is closed.
\<close>

theorem at_most_one_terminal_signal:
  "length (filter terminal (host_log (lifetime e vc c acts))) \<le> 1
   \<and> (filter terminal (host_log (lifetime e vc c acts)) \<noteq> [] \<longrightarrow>
        list_all closed (sources (lifetime e vc c acts)))"
  using lifetime_settled_or_streaming [of e vc c acts]
  by (auto simp: settled_def streaming_def)

theorem at_most_one_terminal_signal_witness:
  \<open>filter terminal (host_log (lifetime sample_env sample_config sample_init
      [StreamEvent 0 ''finished.svg'' JUndefined,
       StreamEvent 0 ''failed.svg'' (JStr ''{"error":"timeout"}''),
       StreamEvent 0 ''error'' (JStr ''boom'')]))
     = [Fire ''realtimecomplete'' None]
   \<and> list_all closed (sources (lifetime sample_env sample_config sample_init
      [StreamEvent 0 ''finished.svg'' JUndefined,
       StreamEvent 0 ''failed.svg'' (JStr ''{"error":"timeout"}''),
       StreamEvent 0 ''error'' (JStr ''boom'')]))\<close>
proof -
  let ?s = "snd (init sample_env sample_init (create sample_config))"
  let ?t = "snd (handleFinishedEvent ?s)"
  let ?acts = \<open>[StreamEvent 0 ''finished.svg'' JUndefined,
       StreamEvent 0 ''failed.svg'' (JStr ''{"error":"timeout"}''),
       StreamEvent 0 ''error'' (JStr ''boom'')]\<close>
  have l: "listeners_for ''finished.svg''
             \<lparr>es_url = url sample_init, closed = False, listeners = registered sample_env\<rparr>
           = [HandleFinishedEvent]"
    by (simp add: listeners_for_def registered_def sample_env_def)
  have d: "deliver sample_env 0 ''finished.svg'' JUndefined ?s = ?t"
    unfolding sample_init_state using l by (simp add: deliver_def create_def)
  have e: "host_log ?s = []" "\<not> ready ?s" "length (sources ?s) = 1"
    unfolding sample_init_state by (simp_all add: create_def)
  note h = handleFinishedEvent_active [OF sample_active]
  have g: "host_log ?t = [Fire ''realtimecomplete'' None, Close 0]"
    using e by (simp add: h closed_at_def)
  have "settled ?t"
    using e by (simp add: h closed_at_settles)
  then have c: "deliver sample_env k name data ?t = ?t" for k name data
    by (rule settled_deliver)
  have lt: "lifetime sample_env sample_config sample_init ?acts = ?t"
    by (simp add: lifetime_def run_def d c)
  show ?thesis
    using at_most_one_terminal_signal [of sample_env sample_config sample_init ?acts]
    unfolding lt by (simp add: g)
qed

section \<open>The invariant of the gate\<close>

lemma queue_kept_andThen:
  assumes "messageQueue (snd x) \<noteq> None"
    and "\<And>t. messageQueue t \<noteq> None \<Longrightarrow> messageQueue (snd (f t)) \<noteq> None"
  shows "messageQueue (snd (andThen x f)) \<noteq> None"
proof (cases x)
  case (Pair out t)
  then show ?thesis using assms(1) assms(2) [of t] by (cases out) simp_all
qed

lemma queue_kept_broadcastMessageWhenReady:
  "messageQueue s \<noteq> None \<Longrightarrow> messageQueue (snd (broadcastMessageWhenReady name data s)) \<noteq> None"
  using quiet_broadcastMessageWhenReady [of s name data] by (simp add: quiet_def)

lemma queue_kept_viewerAPI_fire:
  "messageQueue s \<noteq> None \<Longrightarrow> messageQueue (snd (viewerAPI_fire name data s)) \<noteq> None"
  by (simp add: viewerAPI_fire_def)

lemma queue_kept_realtime_destroy:
  "messageQueue s \<noteq> None \<Longrightarrow> messageQueue (snd (realtime_destroy s)) \<noteq> None"
  by (simp add: realtime_destroy_def Realtime_destroy_def es_close_def
           split: realtime_var.splits option.splits)

lemma queue_kept_handleFinishedEvent:
  assumes "messageQueue s \<noteq> None"
  shows "messageQueue (snd (handleFinishedEvent s)) \<noteq> None"
proof (cases "viewerConfig_set s")
  case False
  with assms show ?thesis by (simp add: handleFinishedEvent_def)
next
  case True
  have "messageQueue (snd (andThen (andThen (broadcastMessageWhenReady ''pageavailable''
            [(''upto'', numPages (config s))] s) (viewerAPI_fire ''realtimecomplete'' None))
          realtime_destroy)) \<noteq> None"
    by (intro queue_kept_andThen queue_kept_broadcastMessageWhenReady queue_kept_viewerAPI_fire
          queue_kept_realtime_destroy assms)
  with True show ?thesis by (simp add: handleFinishedEvent_def)
qed

lemma queue_kept_handleErrorEvent:
  assumes "messageQueue s \<noteq> None"
  shows "messageQueue (snd (handleErrorEvent e data s)) \<noteq> None"
proof (cases "viewerAPI_set s")
  case False
  with assms show ?thesis by (simp add: handleErrorEvent_def)
next
  case True
  show ?thesis
  proof (cases "member (decodeErrorData e data s) ''error''")
    case None
    with assms True show ?thesis by (simp add: handleErrorEvent_def)
  next
    case (Some err)
    have "messageQueue (snd (andThen (viewerAPI_fire ''realtimeerror'' p s) realtime_destroy))
            \<noteq> None" for p
      by (intro queue_kept_andThen queue_kept_viewerAPI_fire queue_kept_realtime_destroy assms)
    with True Some show ?thesis by (simp add: handleErrorEvent_def)
  qed
qed

lemma queue_kept_handlePageAvailableEvent:
  "messageQueue s \<noteq> None \<Longrightarrow> messageQueue (snd (handlePageAvailableEvent e data s)) \<noteq> None"
  using quiet_handlePageAvailableEvent [of s e data] by (simp add: quiet_def)

text \<open>
  C10. Whenever the plugin is ready, no message is pending. \<open>broadcastMessageWhenReady\<close>,
  the ready message and the three event handlers preserve this; they keep a queue that
  exists, and the ready message returns with that queue drained completely;
  \<open>broadcastMessageWhenReady\<close> leaves the queue alone once the flag is set; and the
  invariant holds at every point of every plugin lifetime.
\<close>

theorem ready_implies_queue_empty:
  "(gate_inv s \<longrightarrow> gate_inv (snd (broadcastMessageWhenReady name data s)))
   \<and> gate_inv (snd (handleReadyMessage s))
   \<and> (gate_inv s \<longrightarrow> gate_inv (snd (handlePageAvailableEvent e d s)))
   \<and> (gate_inv s \<longrightarrow> gate_inv (snd (handleFinishedEvent s)))
   \<and> (gate_inv s \<longrightarrow> gate_inv (snd (handleErrorEvent e d s)))
   \<and> (messageQueue s \<noteq> None \<longrightarrow>
        messageQueue (snd (broadcastMessageWhenReady name data s)) \<noteq> None
        \<and> messageQueue (snd (handlePageAvailableEvent e d s)) \<noteq> None
        \<and> messageQueue (snd (handleFinishedEvent s)) \<noteq> None
        \<and> messageQueue (snd (handleErrorEvent e d s)) \<noteq> None
        \<and> ready (snd (handleReadyMessage s))
        \<and> messageQueue (snd (handleReadyMessage s)) = Some [])
   \<and> (ready s \<longrightarrow>
        messageQueue (snd (broadcastMessageWhenReady name data s)) = messageQueue s)
   \<and> gate_inv (lifetime e vc c acts)"
proof (intro conjI impI)
  show "gate_inv (snd (broadcastMessageWhenReady name data s))" if "gate_inv s"
    using gate_step_broadcastMessageWhenReady that by (rule gate_step_inv)
  show "gate_inv (snd (handleReadyMessage s))"
    by (simp add: gate_inv_def handleReadyMessage_drained)
  show "gate_inv (snd (handlePageAvailableEvent e d s))" if "gate_inv s"
    using gate_step_handlePageAvailableEvent that by (rule gate_step_inv)
  show "gate_inv (snd (handleFinishedEvent s))" if "gate_inv s"
    using gate_step_handleFinishedEvent that by (rule gate_step_inv)
  show "gate_inv (snd (handleErrorEvent e d s))" if "gate_inv s"
    using gate_step_handleErrorEvent that by (rule gate_step_inv)
  show "messageQueue (snd (broadcastMessageWhenReady name data s)) \<noteq> None"
    if "messageQueue s \<noteq> None"
    using that by (rule queue_kept_broadcastMessageWhenReady)
  show "messageQueue (snd (handlePageAvailableEvent e d s)) \<noteq> None" if "messageQueue s \<noteq> None"
    using that by (rule queue_kept_handlePageAvailableEvent)
  show "messageQueue (snd (handleFinishedEvent s)) \<noteq> None" if "messageQueue s \<noteq> None"
    using that by (rule queue_kept_handleFinishedEvent)
  show "messageQueue (snd (handleErrorEvent e d s)) \<noteq> None" if "messageQueue s \<noteq> None"
    using that by (rule queue_kept_handleErrorEvent)
  show "ready (snd (handleReadyMessage s))" if "messageQueue s \<noteq> None"
    by (simp add: handleReadyMessage_drained)
  show "messageQueue (snd (handleReadyMessage s)) = Some []" if "messageQueue s \<noteq> None"
    using that by (auto simp: handleReadyMessage_live)
  show "messageQueue (snd (broadcastMessageWhenReady name data s)) = messageQueue s" if "ready s"
    using that by (simp add: broadcastMessageWhenReady_def scope_broadcast_def)
  show "gate_inv (lifetime e vc c acts)" by (rule lifetime_gate_inv)
qed

theorem ready_implies_queue_empty_witness:
  "ready (snd (handleReadyMessage (create sample_config)))
   \<and> pending (snd (handleReadyMessage (create sample_config))) = []
   \<and> pending (snd (broadcastMessageWhenReady ''pageavailable'' [(''page'', JNum 3)]
         (snd (handleReadyMessage (create sample_config))))) = []
   \<and> messageQueue (snd (broadcastMessageWhenReady ''pageavailable'' [(''page'', JNum 3)]
         (snd (handleReadyMessage (create sample_config))))) = Some []"
  using ready_implies_queue_empty
    [of "snd (handleReadyMessage (create sample_config))" "''pageavailable''"
        "[(''page'', JNum 3)]" sample_env "JStr ''boom''" sample_config sample_init "[]"]
  by (simp add: gate_inv_def pending_def handleReadyMessage_live create_def sample_config_def
        broadcastMessageWhenReady_def scope_broadcast_def)

end
